theory Spec2Isabelle
  imports Complex_Main
begin

section \<open>Python values used by the converter\<close>

text \<open>
  A Python \<open>str\<close> is modelled as a \<open>string\<close>, one \<open>char\<close> per character, so that
  \<open>len\<close> is \<open>length\<close>; \<open>bytes\<close> is a list of 8-bit characters as well. Python's unbounded
  \<open>int\<close> is \<open>int\<close>; page indices, which the code only ever produces with \<open>range\<close> and
  \<open>enumerate\<close>, are \<open>nat\<close>. The coordinates and font sizes that the PDF library hands
  out are finite floats; each of them is a rational number, and they are modelled as
  \<open>rat\<close>.
\<close>

type_synonym bytes = string

text \<open>\<open>str(n)\<close> for an integer: decimal digits, most significant first, with a minus sign.\<close>

definition digit_char :: "nat \<Rightarrow> char" where
  "digit_char d = ''0123456789'' ! d"

fun str_nat :: "nat \<Rightarrow> string" where
  "str_nat n = (if n < 10 then [digit_char n] else str_nat (n div 10) @ [digit_char (n mod 10)])"

declare str_nat.simps [simp del]

definition str_int :: "int \<Rightarrow> string" where
  "str_int i = (if i < 0 then CHR ''-'' # str_nat (nat (- i)) else str_nat (nat i))"

text \<open>
  \<open>round(x)\<close> on a float returns the nearest integer and resolves a tie towards the even
  neighbour.
\<close>

definition py_round :: "rat \<Rightarrow> int" where
  "py_round x =
     (let f = \<lfloor>x\<rfloor>; d = x - of_int f
      in if d < 1 / 2 then f else if 1 / 2 < d then f + 1 else if even f then f else f + 1)"

text \<open>\<open>sep.join(xs)\<close>.\<close>

fun join :: "string \<Rightarrow> string list \<Rightarrow> string" where
  "join sep [] = []"
| "join sep [x] = x"
| "join sep (x # y # ys) = x @ sep @ join sep (y # ys)"

text \<open>\<open>str(xs)\<close> for a list of integers, as an f-string renders it: \<open>[1, 2, 3]\<close>.\<close>

definition str_int_list :: "int list \<Rightarrow> string" where
  "str_int_list xs = ''['' @ join '', '' (map str_int xs) @ '']''"

text \<open>
  \<open>str(cell)\<close> for a table cell. The table library returns each cell as a string or as
  \<open>None\<close>, and \<open>str(None)\<close> is the text \<open>None\<close>.
\<close>

fun py_str :: "string option \<Rightarrow> string" where
  "py_str None = ''None''"
| "py_str (Some s) = s"

text \<open>Python's \<open>enumerate(xs)\<close> is \<^term>\<open>List.enumerate 0 xs\<close>.\<close>

section \<open>Data produced by the extractors\<close>

text \<open>
  The dictionaries that \<open>pdf_parser.py\<close> builds: one per text span
  (\<open>extract_text_with_positions\<close>), one per image (\<open>extract_images\<close>), one per page that
  has tables (\<open>extract_tables_with_pdfplumber\<close>). A table is a list of rows of cells.
\<close>

record text_block =
  b_text :: string
  b_bbox :: "rat list"
  b_font :: string
  b_size :: int
  b_color :: int

record image =
  img_name :: string
  img_bytes :: bytes
  img_page :: nat

type_synonym table = "string option list list"

record page_tables_entry =
  page_number :: nat
  tables :: "table list"

record page_text_entry =
  text_page_number :: nat
  blocks :: "text_block list"

section \<open>Exceptions\<close>

text \<open>
  The exception classes of \<open>exceptions.py\<close>, each carrying its message, the framework's
  \<open>HTTPException\<close> with status code and detail, and every other exception (raised by a
  library or by the interpreter) by the name of its class.
\<close>

datatype exn =
    PDFProcessingError string
  | InvalidPDFError string
  | PasswordProtectedPDFError string
  | HTTPException nat string
  | OtherException string

fun is_PDFProcessingError :: "exn \<Rightarrow> bool" where
  "is_PDFProcessingError (PDFProcessingError _) = True"
| "is_PDFProcessingError (InvalidPDFError _) = True"
| "is_PDFProcessingError (PasswordProtectedPDFError _) = True"
| "is_PDFProcessingError _ = False"

section \<open>The generative model\<close>

text \<open>
  One completion request: the model's name, the system instruction and the human message.
  The service is outside the program: \<open>chat\<close> gives, for each request, the text it answers
  or the exception its client raises. Every request the code issues is recorded, in order.
\<close>

record llm_request =
  model :: string
  system_message :: string
  human_message :: string

type_synonym chat = "llm_request \<Rightarrow> exn + string"

section \<open>html_generator.py\<close>

subsection \<open>format_data_for_llm\<close>

definition format_text_block :: "text_block \<Rightarrow> string" where
  \<open>format_text_block block =
     (let bbox = map py_round (b_bbox block)
      in ''- Text: "'' @ b_text block @ ''" | Position (x1,y1,x2,y2): '' @ str_int_list bbox
           @ '' | Size: '' @ str_int (b_size block))\<close>

definition format_image :: "image \<Rightarrow> string" where
  \<open>format_image img = ''- Image Filename: "'' @ img_name img @ ''"''\<close>

definition table_str :: "table \<Rightarrow> string" where
  "table_str table = join ''\<newline>'' (map (\<lambda>row. join '' | '' (map py_str row)) table)"

definition format_table :: "nat \<times> table \<Rightarrow> string list" where
  "format_table it =
     (case it of (i, table) \<Rightarrow>
        [''\<newline>--- Table '' @ str_int (int i + 1) @ '' ---'', table_str table])"

definition formatted_strings :: "text_block list \<Rightarrow> image list \<Rightarrow> table list \<Rightarrow> string list" where
  "formatted_strings page_text_blocks page_image_data page_tables =
     [''**Text Elements:**'']
     @ map format_text_block page_text_blocks
     @ (if page_image_data \<noteq> []
        then ''\<newline>**Image Elements:**'' # map format_image page_image_data else [])
     @ (if page_tables \<noteq> []
        then ''\<newline>**PRE-EXTRACTED TABLES (MUST be formatted as Markdown tables):**''
             # concat (map format_table (List.enumerate 0 page_tables))
        else [])"

definition format_data_for_llm :: "text_block list \<Rightarrow> image list \<Rightarrow> table list \<Rightarrow> string" where
  "format_data_for_llm page_text_blocks page_image_data page_tables =
     join ''\<newline>'' (formatted_strings page_text_blocks page_image_data page_tables)"

subsection \<open>generate_markdown_from_data\<close>

definition MAX_CHARS :: nat where
  "MAX_CHARS = 15000"

definition fallback_heading :: string where
  "fallback_heading = ''# Page Content Too Large for Detailed Analysis''"

definition fallback_notice :: string where
  "fallback_notice = ''The following is a raw text dump of the page content. Formatting has been simplified to avoid exceeding AI processing limits.''"

definition fallback_md :: "text_block list \<Rightarrow> string list" where
  "fallback_md page_text_blocks =
     [fallback_heading, fallback_notice, ''\<newline>---\<newline>''] @ map b_text page_text_blocks"

definition markdown_system_prompt :: string where
  \<open>markdown_system_prompt =
     ''You are an expert document analysis AI. Your task is to synthesize raw text elements and pre-extracted table data into a single, clean Markdown document.\<newline>''
     @ ''1.  **Prioritize Table Data:** Data provided under 'PRE-EXTRACTED TABLES' is highly accurate. You MUST format this data using proper Markdown table syntax (`| Header | ... |`).\<newline>''
     @ ''2.  **Use Text for Context:** Use the 'Text Elements' to create surrounding paragraphs and headings. Do NOT repeat text that is already present in the tables.\<newline>''
     @ ''3.  **Integrate Content:** Merge the tables and other text into a cohesive document.\<newline>''
     @ ''4.  **Handle Images:** Represent any images using Markdown image syntax.\<newline>''
     @ ''Your output must be ONLY the raw Markdown content.''\<close>

definition markdown_request :: "string \<Rightarrow> llm_request" where
  "markdown_request formatted_data =
     \<lparr>model = ''gemini-2.0-flash-lite'',
      system_message = markdown_system_prompt,
      human_message = ''Here is the data for the page:\<newline>\<newline>'' @ formatted_data\<rparr>"

text \<open>
  The result is the Markdown (or the exception of the model call) together with the list
  of requests sent to the model.
\<close>

definition generate_markdown_from_data ::
  "chat \<Rightarrow> text_block list \<Rightarrow> image list \<Rightarrow> table list \<Rightarrow> (exn + string) \<times> llm_request list" where
  "generate_markdown_from_data chat page_text_blocks page_image_data page_tables =
     (let formatted_data = format_data_for_llm page_text_blocks page_image_data page_tables
      in if length formatted_data > MAX_CHARS
         then (Inr (join ''\<newline>\<newline>'' (fallback_md page_text_blocks)), [])
         else (chat (markdown_request formatted_data), [markdown_request formatted_data]))"

subsection \<open>generate_html_from_markdown\<close>

definition previous_link :: "int \<Rightarrow> string" where
  \<open>previous_link current_page =
     ''<a href="page-'' @ str_int (current_page - 1) @ ''.html">Previous</a>''\<close>

definition next_link :: "int \<Rightarrow> string" where
  \<open>next_link current_page =
     ''<a href="page-'' @ str_int (current_page + 1) @ ''.html">Next</a>''\<close>

definition nav_links :: "int \<Rightarrow> int \<Rightarrow> string list" where
  "nav_links current_page total_pages =
     (if current_page > 1 then [previous_link current_page] else [])
     @ (if current_page < total_pages then [next_link current_page] else [])"

definition nav_html :: "int \<Rightarrow> int \<Rightarrow> string" where
  "nav_html current_page total_pages =
     ''<footer><nav>'' @ join '' | '' (nav_links current_page total_pages)
     @ ''</nav><p>Page '' @ str_int current_page @ '' of '' @ str_int total_pages
     @ ''</p></footer>''"

definition nav_instructions :: "int \<Rightarrow> int \<Rightarrow> string" where
  "nav_instructions current_page total_pages =
     (if total_pages > 1
      then ''At the end of the `<body>`, before the closing tag, you MUST include this exact navigation HTML: ''
           @ nav_html current_page total_pages
      else [])"

text \<open>
  The system prompt is an f-string: a fixed text, the navigation instructions, and a
  fixed text again.
\<close>

definition html_prompt_head :: string where
  \<open>html_prompt_head =
     ''\<newline>You are an expert front-end developer. Your task is to convert the given content (in Markdown format) into a complete, production-ready HTML5 document based on the specified design requirements.\<newline>''
     @ ''\<newline>DESIGN REQUIREMENTS:\<newline>''
     @ ''- Layout: Use a single-column, responsive flexbox layout.\<newline>''
     @ ''- Color scheme: A modern, clean palette with dark grey text (#333), a white background (#FFF), and a subtle blue for links.\<newline>''
     @ ''- Typography: Use a common sans-serif font like Arial or Helvetica with a base font size of 16px.\<newline>''
     @ ''- Responsive: The layout must be mobile-first.\<newline>''
     @ ''\<newline>OUTPUT FORMAT:\<newline>''
     @ ''- A complete HTML5 document.\<newline>''
     @ ''- All CSS must be embedded in a single `<style>` tag in the `<head>`.\<newline>''
     @ ''- Use a clean, semantic HTML structure (e.g., <main>, <article>, <h1>, <p>).\<newline>''
     @ ''- ''\<close>

definition html_prompt_tail :: string where
  "html_prompt_tail =
     ''\<newline>- Output ONLY the raw HTML code, starting with <!DOCTYPE html>.\<newline>''"

definition html_system_prompt :: "int \<Rightarrow> int \<Rightarrow> string" where
  "html_system_prompt current_page total_pages =
     html_prompt_head @ nav_instructions current_page total_pages @ html_prompt_tail"

definition html_request :: "string \<Rightarrow> int \<Rightarrow> int \<Rightarrow> llm_request" where
  "html_request markdown_content current_page total_pages =
     \<lparr>model = ''gemini-2.0-flash'',
      system_message = html_system_prompt current_page total_pages,
      human_message = ''CONTENT:\<newline>\<newline>'' @ markdown_content\<rparr>"

definition generate_html_from_markdown ::
  "chat \<Rightarrow> string \<Rightarrow> int \<Rightarrow> int \<Rightarrow> (exn + string) \<times> llm_request list" where
  "generate_html_from_markdown chat markdown_content current_page total_pages =
     (chat (html_request markdown_content current_page total_pages),
      [html_request markdown_content current_page total_pages])"

section \<open>The PDF library's documents\<close>

text \<open>
  What the code reads from an opened \<open>fitz.Document\<close>. A page has its layout blocks
  (\<open>page.get_text("dict")["blocks"]\<close>; a block of type 0 is a text block with lines of
  spans) and the cross-reference numbers of the images it lists
  (\<open>img_info[0]\<close> for each item of \<open>doc.get_page_images(page_num, full=True)\<close>);
  \<open>xref_image\<close> is \<open>doc.extract_image\<close>, giving the image's bytes and extension.
  \<open>passwords\<close> are the passwords that authenticate an encrypted document.
\<close>

record raw_span =
  span_text :: string
  span_bbox :: "rat list"
  span_font :: string
  span_size :: rat
  span_color :: int

record raw_block =
  block_type :: nat
  block_lines :: "raw_span list list"

record pdf_page =
  layout_blocks :: "raw_block list"
  page_xrefs :: "nat list"

record document =
  name :: string
  is_closed :: bool
  is_encrypted :: bool
  passwords :: "string list"
  pages :: "pdf_page list"
  xref_image :: "nat \<Rightarrow> bytes \<times> string"

text \<open>
  The library's own behaviour, as far as the code relies on it: a successful
  \<open>authenticate\<close> clears \<open>is_encrypted\<close>, \<open>close\<close> marks the handle closed, and
  \<open>page_count\<close> (which is also \<open>len(doc)\<close>, and so the truth value of \<open>doc\<close>) raises
  \<open>ValueError\<close> on a closed handle.
\<close>

definition authenticate :: "document \<Rightarrow> string \<Rightarrow> bool \<times> document" where
  "authenticate doc password =
     (if password \<in> set (passwords doc) then (True, doc\<lparr>is_encrypted := False\<rparr>) else (False, doc))"

definition close :: "document \<Rightarrow> document" where
  "close doc = doc\<lparr>is_closed := True\<rparr>"

definition page_count :: "document \<Rightarrow> exn + nat" where
  "page_count doc =
     (if is_closed doc then Inl (OtherException ''ValueError'') else Inr (length (pages doc)))"

definition truth_value :: "document \<Rightarrow> exn + bool" where
  "truth_value doc = (case page_count doc of Inl e \<Rightarrow> Inl e | Inr n \<Rightarrow> Inr (0 < n))"

section \<open>The world outside the program\<close>

text \<open>
  The outcome of running the \<open>pdfimages\<close> command with \<open>check=True\<close> and a timeout: it
  exits with status 0 and leaves files in the scratch directory (listed with their
  contents, in the order of \<open>os.listdir\<close>), it exits with another status
  (\<open>CalledProcessError\<close>), the executable is not found (\<open>FileNotFoundError\<close>), or it runs
  into the timeout (\<open>TimeoutExpired\<close>).
\<close>

datatype proc_outcome =
    Completed "(string \<times> bytes) list"
  | NonZeroExit
  | ExecutableMissing
  | TimedOut

text \<open>
  The libraries, the command-line tool and the model service, each as a function of the
  contents of the file it is pointed at: what \<open>fitz.open\<close> makes of a file, the tables
  \<open>page.extract_tables()\<close> finds on each page of it, what \<open>pdfimages\<close> does with it, and
  the model's answers. \<open>tmp_name\<close> is the name \<open>NamedTemporaryFile\<close> hands out.
\<close>

record world =
  tmp_name :: string
  fitz_parse :: "bytes \<Rightarrow> exn + document"
  pdfplumber_parse :: "bytes \<Rightarrow> exn + table list list"
  pdfimages :: "bytes \<Rightarrow> proc_outcome"
  llm :: chat

type_synonym files = "string \<rightharpoonup> bytes"

datatype event =
    ReadUpload
  | WriteFile string
  | FitzOpen string
  | PdfplumberOpen string
  | RunPdfimages string
  | ModelCall llm_request
  | CloseDocument
  | RemoveFile string

definition fitz_open :: "world \<Rightarrow> files \<Rightarrow> string \<Rightarrow> exn + document" where
  "fitz_open w fs file_path =
     (case fs file_path of
        None \<Rightarrow> Inl (OtherException ''FileNotFoundError'')
      | Some data \<Rightarrow>
          (case fitz_parse w data of
             Inl e \<Rightarrow> Inl e
           | Inr doc \<Rightarrow> Inr (doc\<lparr>name := file_path, is_closed := False\<rparr>)))"

section \<open>pdf_parser.py\<close>

subsection \<open>open_pdf_from_path\<close>

text \<open>\<open>password or ""\<close>.\<close>

fun password_or_empty :: "string option \<Rightarrow> string" where
  "password_or_empty None = []"
| "password_or_empty (Some p) = p"

definition open_pdf_from_path ::
  "world \<Rightarrow> files \<Rightarrow> string \<Rightarrow> string option \<Rightarrow> (exn + document) \<times> event list" where
  "open_pdf_from_path w fs file_path password =
     (case fitz_open w fs file_path of
        Inl e \<Rightarrow> (Inl e, [FitzOpen file_path])
      | Inr doc \<Rightarrow>
          if is_encrypted doc
          then (case authenticate doc (password_or_empty password) of
                  (ok, doc') \<Rightarrow>
                    if \<not> ok then (Inr (close doc'), [FitzOpen file_path, CloseDocument])
                    else (Inr doc', [FitzOpen file_path]))
          else (Inr doc, [FitzOpen file_path]))"

subsection \<open>extract_text_with_positions\<close>

definition span_dict :: "raw_span \<Rightarrow> text_block" where
  "span_dict sp =
     \<lparr>b_text = span_text sp, b_bbox = span_bbox sp, b_font = span_font sp,
      b_size = py_round (span_size sp), b_color = span_color sp\<rparr>"

definition page_spans :: "pdf_page \<Rightarrow> text_block list" where
  "page_spans page =
     concat (map (\<lambda>block. if block_type block = 0
                            then concat (map (map span_dict) (block_lines block)) else [])
                 (layout_blocks page))"

definition extract_text_with_positions :: "document \<Rightarrow> exn + page_text_entry list" where
  "extract_text_with_positions docs =
     (case page_count docs of
        Inl e \<Rightarrow> Inl e
      | Inr n \<Rightarrow>
          Inr (map (\<lambda>(page_num, page). \<lparr>text_page_number = page_num, blocks = page_spans page\<rparr>)
                   (List.enumerate 0 (pages docs))))"

subsection \<open>extract_tables_with_pdfplumber\<close>

definition sparse_tables :: "table list list \<Rightarrow> page_tables_entry list" where
  "sparse_tables per_page =
     map (\<lambda>(page_num, ts). \<lparr>page_number = page_num, tables = ts\<rparr>)
         (filter (\<lambda>(page_num, ts). ts \<noteq> []) (List.enumerate 0 per_page))"

definition extract_tables_with_pdfplumber ::
  "world \<Rightarrow> files \<Rightarrow> string \<Rightarrow> (exn + page_tables_entry list) \<times> event list" where
  "extract_tables_with_pdfplumber w fs file_path =
     (case fs file_path of
        None \<Rightarrow> (Inl (OtherException ''FileNotFoundError''), [PdfplumberOpen file_path])
      | Some data \<Rightarrow>
          (case pdfplumber_parse w data of
             Inl e \<Rightarrow> (Inl e, [PdfplumberOpen file_path])
           | Inr per_page \<Rightarrow> (Inr (sparse_tables per_page), [PdfplumberOpen file_path])))"

subsection \<open>extract_images and its fallback\<close>

definition run_pdfimages :: "world \<Rightarrow> files \<Rightarrow> string \<Rightarrow> proc_outcome" where
  "run_pdfimages w fs file_path =
     (case fs file_path of None \<Rightarrow> NonZeroExit | Some data \<Rightarrow> pdfimages w data)"

definition fallback_image :: "string \<times> bytes \<Rightarrow> image" where
  "fallback_image f = (case f of (filename, image_bytes) \<Rightarrow>
     \<lparr>img_name = filename, img_bytes = image_bytes, img_page = 0\<rparr>)"

definition extract_images_with_fallback ::
  "world \<Rightarrow> files \<Rightarrow> string \<Rightarrow> (exn + image list) \<times> event list" where
  "extract_images_with_fallback w fs file_path =
     (case run_pdfimages w fs file_path of
        Completed written \<Rightarrow> (Inr (map fallback_image written), [RunPdfimages file_path])
      | NonZeroExit \<Rightarrow> (Inr [], [RunPdfimages file_path])
      | ExecutableMissing \<Rightarrow> (Inr [], [RunPdfimages file_path])
      | TimedOut \<Rightarrow> (Inl (OtherException ''TimeoutExpired''), [RunPdfimages file_path]))"

definition page_image :: "document \<Rightarrow> nat \<Rightarrow> nat \<Rightarrow> image" where
  "page_image doc page_num xref =
     (case xref_image doc xref of (image_bytes, ext) \<Rightarrow>
        \<lparr>img_name = ''image_'' @ str_int (int page_num) @ ''_'' @ str_int (int xref) @ ''.'' @ ext,
         img_bytes = image_bytes, img_page = page_num\<rparr>)"

definition primary_images :: "document \<Rightarrow> image list" where
  "primary_images doc =
     concat (map (\<lambda>(page_num, page). map (page_image doc page_num) (page_xrefs page))
                 (List.enumerate 0 (pages doc)))"

definition extract_images ::
  "world \<Rightarrow> files \<Rightarrow> document \<Rightarrow> (exn + image list) \<times> event list" where
  "extract_images w fs doc =
     (case page_count doc of
        Inl e \<Rightarrow> (Inl e, [])
      | Inr n \<Rightarrow>
          (let all_images = primary_images doc
           in if all_images = [] \<and> 0 < n then extract_images_with_fallback w fs (name doc)
              else (Inr all_images, [])))"

section \<open>main.py\<close>

subsection \<open>Requests and responses\<close>

text \<open>
  The uploaded file, as far as the endpoint looks at it: its declared content type and
  the bytes that \<open>file.read()\<close> returns. A response is a status code and a body: the
  handler's \<open>{"error": {"type": t, "message": m}}\<close>, the framework's \<open>{"detail": d}\<close>
  for an \<open>HTTPException\<close>, the middleware's \<open>{"message": m}\<close>, or the zip archive as the
  list of its entries (name and data) in the order they were written. The header that
  names the download after the uploaded file is left out; an upload carries a file name.
\<close>

record upload =
  content_type :: string
  file_bytes :: bytes

type_synonym zip_entries = "(string \<times> bytes) list"

datatype content =
    ErrorContent string string
  | DetailContent string
  | MessageContent string
  | ZipContent zip_entries

record response =
  status_code :: nat
  content :: content

fun class_name :: "exn \<Rightarrow> string" where
  "class_name (PDFProcessingError _) = ''PDFProcessingError''"
| "class_name (InvalidPDFError _) = ''InvalidPDFError''"
| "class_name (PasswordProtectedPDFError _) = ''PasswordProtectedPDFError''"
| "class_name (HTTPException _ _) = ''HTTPException''"
| "class_name (OtherException c) = c"

fun message :: "exn \<Rightarrow> string" where
  "message (PDFProcessingError m) = m"
| "message (InvalidPDFError m) = m"
| "message (PasswordProtectedPDFError m) = m"
| "message (HTTPException _ d) = d"
| "message (OtherException _) = []"

definition pdf_processing_exception_handler :: "exn \<Rightarrow> response" where
  "pdf_processing_exception_handler exc =
     \<lparr>status_code = 400, content = ErrorContent (class_name exc) (message exc)\<rparr>"

definition catch_exceptions_middleware :: "exn \<Rightarrow> response" where
  "catch_exceptions_middleware e =
     \<lparr>status_code = 500, content = MessageContent ''An internal server error occurred.''\<rparr>"

subsection \<open>The per-page join\<close>

text \<open>\<open>xs[i]\<close>, which raises \<open>IndexError\<close> out of range.\<close>

definition index :: "'a list \<Rightarrow> nat \<Rightarrow> exn + 'a" where
  "index xs i = (if i < length xs then Inr (xs ! i) else Inl (OtherException ''IndexError''))"

definition select_page_images :: "image list \<Rightarrow> nat \<Rightarrow> image list" where
  "select_page_images all_image_data page_num =
     filter (\<lambda>img. img_page img = page_num) all_image_data"

text \<open>\<open>next((t['tables'] for t in all_table_data if t['page_number'] == page_num), [])\<close>.\<close>

definition select_page_tables :: "page_tables_entry list \<Rightarrow> nat \<Rightarrow> table list" where
  "select_page_tables all_table_data page_num =
     (case filter (\<lambda>t. page_number t = page_num) all_table_data of
        [] \<Rightarrow> []
      | t # _ \<Rightarrow> tables t)"

subsection \<open>convert_pdf_to_html\<close>

definition MAX_FILE_SIZE :: nat where
  "MAX_FILE_SIZE = 50 * 1024 * 1024"

definition page_entry_name :: "int \<Rightarrow> string" where
  "page_entry_name current_page = ''page-'' @ str_int current_page @ ''.html''"

definition stylesheet :: bytes where
  "stylesheet = ''body { font-family: sans-serif; color: #333; margin: 2em; }''"

definition image_entry :: "image \<Rightarrow> string \<times> bytes" where
  "image_entry img = (''images/'' @ img_name img, img_bytes img)"

text \<open>
  The loop over \<open>range(total_pages)\<close>: the page numbers still to do, and the archive
  written so far. An exception ends the loop.
\<close>

fun page_loop ::
  "chat \<Rightarrow> page_text_entry list \<Rightarrow> image list \<Rightarrow> page_tables_entry list \<Rightarrow> nat
     \<Rightarrow> nat list \<Rightarrow> zip_entries \<Rightarrow> (exn + zip_entries) \<times> llm_request list" where
  "page_loop chat all_text_data all_image_data all_table_data total_pages [] zip_file =
     (Inr zip_file, [])"
| "page_loop chat all_text_data all_image_data all_table_data total_pages (page_num # rest) zip_file =
     (let current_page = int page_num + 1
      in case index all_text_data page_num of
           Inl e \<Rightarrow> (Inl e, [])
         | Inr entry \<Rightarrow>
             (let page_text_blocks = blocks entry;
                  page_image_data = select_page_images all_image_data page_num;
                  page_tables = select_page_tables all_table_data page_num
              in case generate_markdown_from_data chat page_text_blocks page_image_data page_tables of
                   (Inl e, calls1) \<Rightarrow> (Inl e, calls1)
                 | (Inr markdown_content, calls1) \<Rightarrow>
                     (case generate_html_from_markdown chat markdown_content current_page
                             (int total_pages) of
                        (Inl e, calls2) \<Rightarrow> (Inl e, calls1 @ calls2)
                      | (Inr final_html, calls2) \<Rightarrow>
                          (case page_loop chat all_text_data all_image_data all_table_data
                                  total_pages rest
                                  (zip_file @ [(page_entry_name current_page, final_html)]) of
                             (r, calls3) \<Rightarrow> (r, calls1 @ calls2 @ calls3)))))"

text \<open>The body of the \<open>try\<close> block once the document is open.\<close>

definition build_archive ::
  "world \<Rightarrow> files \<Rightarrow> string \<Rightarrow> document \<Rightarrow> (exn + zip_entries) \<times> event list" where
  "build_archive w fs temp_file_path doc =
     (case page_count doc of
        Inl e \<Rightarrow> (Inl e, [])
      | Inr total_pages \<Rightarrow>
          (case extract_text_with_positions doc of
             Inl e \<Rightarrow> (Inl e, [])
           | Inr all_text_data \<Rightarrow>
               (case extract_images w fs doc of
                  (Inl e, ev1) \<Rightarrow> (Inl e, ev1)
                | (Inr all_image_data, ev1) \<Rightarrow>
                    (case extract_tables_with_pdfplumber w fs temp_file_path of
                       (Inl e, ev2) \<Rightarrow> (Inl e, ev1 @ ev2)
                     | (Inr all_table_data, ev2) \<Rightarrow>
                         (case page_loop (llm w) all_text_data all_image_data all_table_data
                                 total_pages [0 ..< total_pages] [] of
                            (Inl e, calls) \<Rightarrow> (Inl e, ev1 @ ev2 @ map ModelCall calls)
                          | (Inr zip_file, calls) \<Rightarrow>
                              (Inr (zip_file @ [(''style.css'', stylesheet)]
                                      @ map image_entry all_image_data),
                               ev1 @ ev2 @ map ModelCall calls))))))"

text \<open>
  The \<open>try\<close> block with its \<open>except\<close> clauses: the outcome, the value of the variable
  \<open>doc\<close> when the block is left, and the events.
\<close>

definition try_block ::
  "world \<Rightarrow> files \<Rightarrow> string \<Rightarrow> (exn + response) \<times> document option \<times> event list" where
  "try_block w fs temp_file_path =
     (case open_pdf_from_path w fs temp_file_path None of
        (Inl e, ev0) \<Rightarrow>
          (if is_PDFProcessingError e then Inl e
           else Inl (HTTPException 500 ''An internal server error occurred.''), None, ev0)
      | (Inr doc, ev0) \<Rightarrow>
          (case build_archive w fs temp_file_path doc of
             (Inl e, ev1) \<Rightarrow>
               (if is_PDFProcessingError e then Inl e
                else Inl (HTTPException 500 ''An internal server error occurred.''),
                Some doc, ev0 @ ev1)
           | (Inr zip_file, ev1) \<Rightarrow>
               (Inr \<lparr>status_code = 200, content = ZipContent zip_file\<rparr>, Some doc, ev0 @ ev1)))"

text \<open>
  The \<open>finally\<close> clause: \<open>if doc:\<close> asks the document for its truth value, which raises
  on a closed handle; an exception raised here replaces the outcome of the \<open>try\<close> block.
\<close>

definition finally_block ::
  "string \<Rightarrow> document option \<Rightarrow> exn option \<times> event list" where
  "finally_block temp_file_path doc =
     (case doc of
        None \<Rightarrow> (None, [RemoveFile temp_file_path])
      | Some d \<Rightarrow>
          (case truth_value d of
             Inl e \<Rightarrow> (Some e, [])
           | Inr b \<Rightarrow> (None, (if b then [CloseDocument] else []) @ [RemoveFile temp_file_path])))"

definition convert_pdf_to_html :: "world \<Rightarrow> upload \<Rightarrow> (exn + response) \<times> event list" where
  "convert_pdf_to_html w file =
     (if content_type file \<noteq> ''application/pdf''
      then (Inl (HTTPException 400 ''Invalid file type.''), [])
      else
        (let pdf_bytes = file_bytes file
         in if length pdf_bytes > MAX_FILE_SIZE
            then (Inl (HTTPException 413 ''File size exceeds limit.''), [ReadUpload])
            else
              (let temp_file_path = tmp_name w;
                   fs = [temp_file_path \<mapsto> pdf_bytes]
               in case try_block w fs temp_file_path of
                    (outcome, doc, ev1) \<Rightarrow>
                      (case finally_block temp_file_path doc of
                         (raised, ev2) \<Rightarrow>
                           (case raised of Some e \<Rightarrow> Inl e | None \<Rightarrow> outcome,
                            [ReadUpload, WriteFile temp_file_path] @ ev1 @ ev2)))))"

subsection \<open>The application around the endpoint\<close>

text \<open>
  What the caller receives: the endpoint's response, or, for an exception, the
  framework's rendering of an \<open>HTTPException\<close>, the registered handler for the
  \<open>PDFProcessingError\<close> classes, and the catch-all middleware for anything else.
\<close>

definition respond :: "world \<Rightarrow> upload \<Rightarrow> response" where
  "respond w file =
     (case fst (convert_pdf_to_html w file) of
        Inr r \<Rightarrow> r
      | Inl (HTTPException code detail) \<Rightarrow> \<lparr>status_code = code, content = DetailContent detail\<rparr>
      | Inl e \<Rightarrow>
          if is_PDFProcessingError e then pdf_processing_exception_handler e
          else catch_exceptions_middleware e)"

subsection \<open>What a conversion produced\<close>

text \<open>
  The names of the archive's entries when the endpoint answers with an archive, and what
  the extractors delivered to it: the document that \<open>open_pdf_from_path\<close> returned for
  the temporary file, its number of pages and the list \<open>all_image_data\<close>.
\<close>

definition archive_names :: "world \<Rightarrow> upload \<Rightarrow> string list option" where
  "archive_names w file =
     (case fst (convert_pdf_to_html w file) of
        Inl _ \<Rightarrow> None
      | Inr r \<Rightarrow> (case content r of ZipContent zip_file \<Rightarrow> Some (map fst zip_file) | _ \<Rightarrow> None))"

definition opened_document :: "world \<Rightarrow> upload \<Rightarrow> document option" where
  "opened_document w file =
     (case fst (open_pdf_from_path w [tmp_name w \<mapsto> file_bytes file] (tmp_name w) None) of
        Inl _ \<Rightarrow> None
      | Inr doc \<Rightarrow> Some doc)"

definition document_page_count :: "world \<Rightarrow> upload \<Rightarrow> nat" where
  "document_page_count w file =
     (case opened_document w file of None \<Rightarrow> 0 | Some doc \<Rightarrow> length (pages doc))"

definition extracted_images :: "world \<Rightarrow> upload \<Rightarrow> image list" where
  "extracted_images w file =
     (case opened_document w file of
        None \<Rightarrow> []
      | Some doc \<Rightarrow>
          (case fst (extract_images w [tmp_name w \<mapsto> file_bytes file] doc) of
             Inl _ \<Rightarrow> []
           | Inr images \<Rightarrow> images))"

section \<open>Example inputs\<close>

text \<open>
  A one-page document with one text span and one image, a world in which every upload
  parses to it, and variations of both.
\<close>

definition example_page :: pdf_page where
  "example_page =
     \<lparr>layout_blocks =
        [\<lparr>block_type = 0,
          block_lines = [[\<lparr>span_text = ''Hello'', span_bbox = [0, 0, 1, 1], span_font = ''F'',
                           span_size = 23 / 2, span_color = 0\<rparr>]]\<rparr>],
      page_xrefs = [5]\<rparr>"

definition example_document :: document where
  "example_document =
     \<lparr>name = [], is_closed = False, is_encrypted = False, passwords = [],
      pages = [example_page], xref_image = (\<lambda>_. (''IMG'', ''png''))\<rparr>"

definition example_world :: world where
  "example_world =
     \<lparr>tmp_name = ''/tmp/upload.pdf'',
      fitz_parse = (\<lambda>_. Inr example_document),
      pdfplumber_parse = (\<lambda>_. Inr [[]]),
      pdfimages = (\<lambda>_. ExecutableMissing),
      llm = (\<lambda>request. Inr (model request))\<rparr>"

definition example_upload :: upload where
  "example_upload = \<lparr>content_type = ''application/pdf'', file_bytes = ''%PDF-1.7''\<rparr>"

definition locked_document :: document where
  "locked_document = example_document\<lparr>is_encrypted := True, passwords := [''secret'']\<rparr>"

definition locked_world :: world where
  "locked_world = example_world\<lparr>fitz_parse := (\<lambda>_. Inr locked_document)\<rparr>"

definition unreadable_world :: world where
  "unreadable_world = example_world\<lparr>fitz_parse := (\<lambda>_. Inl (OtherException ''FileDataError''))\<rparr>"

definition scanned_document :: document where
  "scanned_document =
     example_document\<lparr>name := ''/tmp/upload.pdf'',
                      pages := [\<lparr>layout_blocks = [], page_xrefs = []\<rparr>]\<rparr>"

definition slow_world :: world where
  "slow_world = example_world\<lparr>pdfimages := (\<lambda>_. TimedOut)\<rparr>"

definition long_block :: text_block where
  "long_block =
     \<lparr>b_text = replicate 15000 CHR ''a'', b_bbox = [], b_font = ''F'', b_size = 0, b_color = 0\<rparr>"

definition repeated_xref_world :: world where
  "repeated_xref_world =
     example_world\<lparr>fitz_parse :=
       (\<lambda>_. Inr (example_document\<lparr>pages := [example_page\<lparr>page_xrefs := [5, 5]\<rparr>]\<rparr>))\<rparr>"

section \<open>Decimal rendering, joining and enumerating\<close>

lemma digit_char_inj: "d < 10 \<Longrightarrow> d' < 10 \<Longrightarrow> digit_char d = digit_char d' \<Longrightarrow> d = d'"
  by (simp add: digit_char_def nth_eq_iff_index_eq)

lemma digit_char_not_minus: "k < 10 \<Longrightarrow> digit_char k \<noteq> CHR ''-''"
proof -
  assume "k < 10"
  then have "digit_char k \<in> set ''0123456789''"
    unfolding digit_char_def by (intro nth_mem) simp
  then show ?thesis by auto
qed

lemma str_nat_not_Nil: "str_nat n \<noteq> []"
  by (subst str_nat.simps) simp

lemma str_nat_inj: "str_nat n = str_nat m \<Longrightarrow> n = m"
proof (induction n arbitrary: m rule: str_nat.induct)
  case (1 n)
  show ?case
  proof (cases "n < 10")
    case small: True
    show ?thesis
    proof (cases "m < 10")
      case True
      with small "1.prems" show ?thesis
        by (simp add: str_nat.simps [of n] str_nat.simps [of m] digit_char_inj)
    next
      case False
      with small "1.prems" str_nat_not_Nil [of "m div 10"] show ?thesis
        by (simp add: str_nat.simps [of n] str_nat.simps [of m])
    qed
  next
    case big: False
    show ?thesis
    proof (cases "m < 10")
      case True
      with big "1.prems" str_nat_not_Nil [of "n div 10"] show ?thesis
        by (simp add: str_nat.simps [of n] str_nat.simps [of m])
    next
      case False
      with big "1.prems" have eq: "str_nat (n div 10) = str_nat (m div 10)"
        and dg: "digit_char (n mod 10) = digit_char (m mod 10)"
        by (simp_all add: str_nat.simps [of n] str_nat.simps [of m])
      from "1.IH" [OF big eq] have "n div 10 = m div 10" .
      moreover from dg have "n mod 10 = m mod 10"
        by (simp add: digit_char_inj)
      ultimately show ?thesis
        by (metis div_mult_mod_eq)
    qed
  qed
qed

lemma str_nat_no_minus: "CHR ''-'' \<notin> set (str_nat n)"
proof (induction n rule: str_nat.induct)
  case (1 n)
  note d = digit_char_not_minus
  show ?case
  proof (cases "n < 10")
    case True
    then show ?thesis using d [of n] by (simp add: str_nat.simps [of n])
  next
    case False
    with 1 d [of "n mod 10"] show ?thesis by (simp add: str_nat.simps [of n])
  qed
qed

lemma str_int_inj: "str_int i = str_int j \<Longrightarrow> i = j"
proof -
  assume a: "str_int i = str_int j"
  have hd: "str_nat n \<noteq> CHR ''-'' # s" for n s
    using str_nat_no_minus [of n] by (metis list.set_intros(1))
  show ?thesis
  proof (cases "i < 0"; cases "j < 0")
    assume "i < 0" "j < 0"
    with a have "nat (- i) = nat (- j)" by (simp add: str_int_def str_nat_inj)
    with \<open>i < 0\<close> \<open>j < 0\<close> show ?thesis by simp
  next
    assume "i < 0" "\<not> j < 0"
    with a hd show ?thesis by (simp add: str_int_def) metis
  next
    assume "\<not> i < 0" "j < 0"
    with a hd show ?thesis by (simp add: str_int_def)
  next
    assume "\<not> i < 0" "\<not> j < 0"
    with a have "nat i = nat j" by (simp add: str_int_def str_nat_inj)
    with \<open>\<not> i < 0\<close> \<open>\<not> j < 0\<close> show ?thesis by simp
  qed
qed

lemma str_small: "str_int 0 = ''0''" "str_int 1 = ''1''" "str_int 5 = ''5''" "str_int 12 = ''12''"
  by (simp_all add: str_int_def str_nat.simps digit_char_def)

lemma join_Cons: "join sep (x # xs) = x @ concat (map (\<lambda>y. sep @ y) xs)"
  by (induction xs arbitrary: x) simp_all

lemma filter_enumerate_index:
  "filter (\<lambda>(i, x). i = k) (List.enumerate m xs) =
     (if m \<le> k \<and> k < m + length xs then [(k, xs ! (k - m))] else [])"
proof (induction xs arbitrary: m)
  case Nil
  then show ?case by simp
next
  case (Cons x xs)
  show ?case
  proof (cases "m = k")
    case True
    then show ?thesis by (simp add: Cons.IH)
  next
    case False
    then show ?thesis by (auto simp: Cons.IH Suc_diff_le)
  qed
qed

section \<open>The Markdown and HTML synthesizers\<close>

text \<open>
  C1. When the rendered description of a page has at most 15000 characters,
  \<open>generate_markdown_from_data\<close> sends exactly one request to the model and its outcome is
  the model's; when it has more, no request is sent and the result is the fallback
  document: the heading, the notice, a rule, and then the text of every span in order,
  separated by blank lines.
\<close>

theorem markdown_size_budget:
  "(length (format_data_for_llm page_text_blocks page_image_data page_tables) \<le> 15000 \<longrightarrow>
      generate_markdown_from_data chat page_text_blocks page_image_data page_tables =
        (chat (markdown_request (format_data_for_llm page_text_blocks page_image_data page_tables)),
         [markdown_request (format_data_for_llm page_text_blocks page_image_data page_tables)]))
   \<and> (15000 < length (format_data_for_llm page_text_blocks page_image_data page_tables) \<longrightarrow>
      generate_markdown_from_data chat page_text_blocks page_image_data page_tables =
        (Inr (''# Page Content Too Large for Detailed Analysis'' @ ''\<newline>\<newline>''
              @ ''The following is a raw text dump of the page content. Formatting has been simplified to avoid exceeding AI processing limits.''
              @ ''\<newline>\<newline>'' @ ''\<newline>---\<newline>''
              @ concat (map (\<lambda>block. ''\<newline>\<newline>'' @ b_text block) page_text_blocks)),
         []))"
proof -
  have "join ''\<newline>\<newline>'' (fallback_md page_text_blocks) =
          fallback_heading @ ''\<newline>\<newline>'' @ fallback_notice @ ''\<newline>\<newline>'' @ ''\<newline>---\<newline>''
          @ concat (map (\<lambda>block. ''\<newline>\<newline>'' @ b_text block) page_text_blocks)"
    unfolding fallback_md_def by (simp add: join_Cons comp_def del: join.simps)
  then show ?thesis
    by (simp add: generate_markdown_from_data_def MAX_CHARS_def Let_def fallback_heading_def
        fallback_notice_def)
qed

theorem markdown_size_budget_witness:
  "length (format_data_for_llm [] [] []) \<le> 15000
   \<and> generate_markdown_from_data (\<lambda>request. Inr (model request)) [] [] [] =
       (Inr ''gemini-2.0-flash-lite'', [markdown_request ''**Text Elements:**''])
   \<and> 15000 < length (format_data_for_llm [long_block] [] [])
   \<and> generate_markdown_from_data (\<lambda>request. Inr (model request)) [long_block] [] [] =
       (Inr (''# Page Content Too Large for Detailed Analysis'' @ ''\<newline>\<newline>''
              @ ''The following is a raw text dump of the page content. Formatting has been simplified to avoid exceeding AI processing limits.''
              @ ''\<newline>\<newline>'' @ ''\<newline>---\<newline>'' @ ''\<newline>\<newline>'' @ replicate 15000 CHR ''a''), [])"
proof -
  have small: "format_data_for_llm [] [] [] = ''**Text Elements:**''"
    by (simp add: format_data_for_llm_def formatted_strings_def)
  have big: "15000 < length (format_data_for_llm [long_block] [] [])"
    by (simp add: format_data_for_llm_def formatted_strings_def format_text_block_def
        long_block_def)
  have lb: "b_text long_block = replicate 15000 CHR ''a''"
    by (simp add: long_block_def)
  show ?thesis
    using markdown_size_budget [of "[]" "[]" "[]" "\<lambda>request. Inr (model request)"]
      markdown_size_budget [of "[long_block]" "[]" "[]" "\<lambda>request. Inr (model request)"] big
    by (simp add: small lb markdown_request_def)
qed

text \<open>
  C3. The navigation that \<open>generate_html_from_markdown\<close> sends to the model for page
  \<open>current_page\<close> of \<open>total_pages\<close>. The function issues one request, whose system prompt
  is the fixed text around the navigation instruction. For a single page the instruction
  is empty: no footer markup at all. For the first of several pages the footer has the
  Next link, to \<open>page-2.html\<close>, and no Previous link; for the last of several pages it
  has the Previous link, to the page before, and no Next link; in between it has both,
  Previous first.
\<close>

theorem navigation_links:
  \<open>let request = (\<lambda>nav. \<lparr>model = ''gemini-2.0-flash'',
                           system_message = html_prompt_head @ nav @ html_prompt_tail,
                           human_message = ''CONTENT:\<newline>\<newline>'' @ markdown_content\<rparr>);
       must_include = ''At the end of the `<body>`, before the closing tag, you MUST include this exact navigation HTML: ''
   in (total_pages = 1 \<longrightarrow>
         generate_html_from_markdown chat markdown_content current_page total_pages =
           (chat (request []), [request []]))
    \<and> (1 < total_pages \<longrightarrow>
         (let r = request (must_include
                    @ ''<footer><nav><a href="page-2.html">Next</a></nav><p>Page 1 of ''
                    @ str_int total_pages @ ''</p></footer>'')
          in generate_html_from_markdown chat markdown_content 1 total_pages = (chat r, [r])))
    \<and> (1 < total_pages \<longrightarrow>
         (let r = request (must_include
                    @ ''<footer><nav><a href="page-'' @ str_int (total_pages - 1)
                    @ ''.html">Previous</a></nav><p>Page '' @ str_int total_pages @ '' of ''
                    @ str_int total_pages @ ''</p></footer>'')
          in generate_html_from_markdown chat markdown_content total_pages total_pages = (chat r, [r])))
    \<and> (1 < current_page \<and> current_page < total_pages \<longrightarrow>
         (let r = request (must_include
                    @ ''<footer><nav><a href="page-'' @ str_int (current_page - 1)
                    @ ''.html">Previous</a> | <a href="page-'' @ str_int (current_page + 1)
                    @ ''.html">Next</a></nav><p>Page '' @ str_int current_page @ '' of ''
                    @ str_int total_pages @ ''</p></footer>'')
          in generate_html_from_markdown chat markdown_content current_page total_pages = (chat r, [r])))
    \<and> (total_pages = 1 \<longrightarrow> nav_instructions current_page total_pages = [])
    \<and> (1 < total_pages \<longrightarrow> nav_links 1 total_pages = [''<a href="page-2.html">Next</a>''])
    \<and> (1 < total_pages \<longrightarrow>
         nav_links total_pages total_pages =
           [''<a href="page-'' @ str_int (total_pages - 1) @ ''.html">Previous</a>''])
    \<and> (1 < current_page \<and> current_page < total_pages \<longrightarrow>
         nav_links current_page total_pages =
           [''<a href="page-'' @ str_int (current_page - 1) @ ''.html">Previous</a>'',
            ''<a href="page-'' @ str_int (current_page + 1) @ ''.html">Next</a>''])\<close>
proof -
  have two: "str_int 2 = ''2''" "str_int 1 = ''1''"
    by (simp_all add: str_int_def str_nat.simps digit_char_def)
  show ?thesis
    by (simp add: Let_def generate_html_from_markdown_def html_request_def
        html_system_prompt_def nav_instructions_def nav_html_def nav_links_def
        previous_link_def next_link_def two)
qed

theorem navigation_links_witness:
  \<open>snd (generate_html_from_markdown (\<lambda>request. Inr []) ''# Title'' 1 1) =
     [\<lparr>model = ''gemini-2.0-flash'',
       system_message = html_prompt_head @ html_prompt_tail,
       human_message = ''CONTENT:\<newline>\<newline># Title''\<rparr>]
   \<and> snd (generate_html_from_markdown (\<lambda>request. Inr []) ''# Title'' 1 3) =
     [\<lparr>model = ''gemini-2.0-flash'',
       system_message = html_prompt_head
         @ ''At the end of the `<body>`, before the closing tag, you MUST include this exact navigation HTML: <footer><nav><a href="page-2.html">Next</a></nav><p>Page 1 of 3</p></footer>''
         @ html_prompt_tail,
       human_message = ''CONTENT:\<newline>\<newline># Title''\<rparr>]
   \<and> snd (generate_html_from_markdown (\<lambda>request. Inr []) ''# Title'' 3 3) =
     [\<lparr>model = ''gemini-2.0-flash'',
       system_message = html_prompt_head
         @ ''At the end of the `<body>`, before the closing tag, you MUST include this exact navigation HTML: <footer><nav><a href="page-2.html">Previous</a></nav><p>Page 3 of 3</p></footer>''
         @ html_prompt_tail,
       human_message = ''CONTENT:\<newline>\<newline># Title''\<rparr>]
   \<and> snd (generate_html_from_markdown (\<lambda>request. Inr []) ''# Title'' 2 3) =
     [\<lparr>model = ''gemini-2.0-flash'',
       system_message = html_prompt_head
         @ ''At the end of the `<body>`, before the closing tag, you MUST include this exact navigation HTML: <footer><nav><a href="page-1.html">Previous</a> | <a href="page-3.html">Next</a></nav><p>Page 2 of 3</p></footer>''
         @ html_prompt_tail,
       human_message = ''CONTENT:\<newline>\<newline># Title''\<rparr>]\<close>
proof -
  have s: "str_int 1 = ''1''" "str_int 2 = ''2''" "str_int 3 = ''3''"
    by (simp_all add: str_int_def str_nat.simps digit_char_def)
  show ?thesis
    using navigation_links [where total_pages = 1 and current_page = 1
        and chat = "\<lambda>request. Inr []" and markdown_content = "''# Title''"]
      navigation_links [where total_pages = 3 and current_page = 2
        and chat = "\<lambda>request. Inr []" and markdown_content = "''# Title''"]
    by (simp add: Let_def s)
qed

lemma concat_map_sep_tables:
  "concat (map ((#) c) (concat (map format_table its))) =
     concat (map (\<lambda>(i, t). c # (''\<newline>--- Table '' @ str_int (int i + 1) @ '' ---'')
                          @ c # join ''\<newline>'' (map (\<lambda>row. join '' | '' (map py_str row)) t)) its)"
  by (induction its) (auto simp: format_table_def table_str_def)

text \<open>
  C9. In the description that \<open>format_data_for_llm\<close> renders, the part after the text and
  image sections is, for every table, its label and then its rows, each row being its
  cells passed through \<open>str\<close> and joined with pipes. So a \<open>None\<close> cell shows up as the
  text \<open>None\<close>, and an empty string as an empty field between two pipes.
\<close>

theorem table_cells_rendered_with_str:
  "format_data_for_llm page_text_blocks page_image_data page_tables =
     format_data_for_llm page_text_blocks page_image_data []
     @ (if page_tables = [] then []
        else ''\<newline>'' @ ''\<newline>**PRE-EXTRACTED TABLES (MUST be formatted as Markdown tables):**''
             @ concat (map (\<lambda>(i, t). ''\<newline>'' @ (''\<newline>--- Table '' @ str_int (int i + 1) @ '' ---'')
                                  @ ''\<newline>''
                                  @ join ''\<newline>'' (map (\<lambda>row. join '' | '' (map py_str row)) t))
                           (List.enumerate 0 page_tables)))
   \<and> py_str None = ''None'' \<and> py_str (Some s) = s
   \<and> table_str [[Some ''a'', None, Some [], Some ''b'']] = ''a | None |  | b''
   \<and> format_data_for_llm [] [] [[[Some ''a'', None, Some [], Some ''b''], [None, None]]] =
       ''**Text Elements:**\<newline>\<newline>**PRE-EXTRACTED TABLES (MUST be formatted as Markdown tables):**\<newline>\<newline>--- Table 1 ---\<newline>a | None |  | b\<newline>None | None''"
proof -
  have one: "str_int 1 = ''1''"
    by (simp add: str_int_def str_nat.simps digit_char_def)
  have general: "format_data_for_llm page_text_blocks page_image_data page_tables =
     format_data_for_llm page_text_blocks page_image_data []
     @ (if page_tables = [] then []
        else ''\<newline>'' @ ''\<newline>**PRE-EXTRACTED TABLES (MUST be formatted as Markdown tables):**''
             @ concat (map (\<lambda>(i, t). ''\<newline>'' @ (''\<newline>--- Table '' @ str_int (int i + 1) @ '' ---'')
                                  @ ''\<newline>''
                                  @ join ''\<newline>'' (map (\<lambda>row. join '' | '' (map py_str row)) t))
                           (List.enumerate 0 page_tables)))"
    unfolding format_data_for_llm_def formatted_strings_def
    by (simp add: join_Cons concat_map_sep_tables table_str_def del: join.simps)
  have concrete: "table_str [[Some ''a'', None, Some [], Some ''b'']] = ''a | None |  | b''"
    "format_data_for_llm [] [] [[[Some ''a'', None, Some [], Some ''b''], [None, None]]] =
       ''**Text Elements:**\<newline>\<newline>**PRE-EXTRACTED TABLES (MUST be formatted as Markdown tables):**\<newline>\<newline>--- Table 1 ---\<newline>a | None |  | b\<newline>None | None''"
    by (simp_all add: table_str_def format_data_for_llm_def formatted_strings_def
        format_table_def enumerate_eq_zip one)
  from general concrete show ?thesis by simp
qed

section \<open>The per-page join\<close>

text \<open>
  Looking a page up in the sparse list gives back what the table library found on that
  page.
\<close>

lemma select_sparse:
  "select_page_tables (sparse_tables per_page) k =
     (if k < length per_page then per_page ! k else [])"
proof -
  have "filter (\<lambda>t. page_number t = k) (sparse_tables per_page) =
          map (\<lambda>(page_num, ts). \<lparr>page_number = page_num, tables = ts\<rparr>)
            (filter (\<lambda>(page_num, ts). ts \<noteq> [])
               (filter (\<lambda>(i, x). i = k) (List.enumerate 0 per_page)))"
    unfolding sparse_tables_def filter_map
    by (simp add: comp_def case_prod_beta conj_commute)
  then show ?thesis
    by (simp add: select_page_tables_def filter_enumerate_index)
qed

lemma sparse_tables_member:
  "e \<in> set (sparse_tables per_page) \<longleftrightarrow>
     page_number e < length per_page \<and> tables e = per_page ! page_number e \<and> tables e \<noteq> []"
  by (cases e) (auto simp: sparse_tables_def in_set_enumerate_eq image_iff)

text \<open>
  C4. The join of a page with its tables and images, over the sparse list that
  \<open>extract_tables_with_pdfplumber\<close> returns. One round of the endpoint's loop synthesizes
  page \<open>page_num\<close> from that page's text, the images whose \<open>page\<close> field equals
  \<open>page_num\<close>, and the tables the library found on that page, or the empty list when it
  found none or the page is beyond its list; the lookup has no failing case. A page that
  has an entry gets that entry's tables, a page without one gets the empty list, and a
  table found on page \<open>k\<close> only is among the tables of page \<open>k\<close> and of no other page.
\<close>

theorem page_join:
  "page_loop chat all_text_data all_image_data (sparse_tables per_page) total_pages
       (page_num # rest) zip_file =
     (case index all_text_data page_num of
        Inl e \<Rightarrow> (Inl e, [])
      | Inr entry \<Rightarrow>
          (case generate_markdown_from_data chat (blocks entry)
                  (filter (\<lambda>img. img_page img = page_num) all_image_data)
                  (if page_num < length per_page then per_page ! page_num else []) of
             (Inl e, calls1) \<Rightarrow> (Inl e, calls1)
           | (Inr markdown_content, calls1) \<Rightarrow>
               (case generate_html_from_markdown chat markdown_content (int page_num + 1)
                       (int total_pages) of
                  (Inl e, calls2) \<Rightarrow> (Inl e, calls1 @ calls2)
                | (Inr final_html, calls2) \<Rightarrow>
                    (case page_loop chat all_text_data all_image_data (sparse_tables per_page)
                            total_pages rest
                            (zip_file @ [(page_entry_name (int page_num + 1), final_html)]) of
                       (r, calls3) \<Rightarrow> (r, calls1 @ calls2 @ calls3)))))
   \<and> (fs file_path = Some data \<and> pdfplumber_parse w data = Inr per_page \<longrightarrow>
        extract_tables_with_pdfplumber w fs file_path =
          (Inr (sparse_tables per_page), [PdfplumberOpen file_path]))
   \<and> (\<lparr>page_number = k, tables = ts\<rparr> \<in> set (sparse_tables per_page) \<longrightarrow>
        select_page_tables (sparse_tables per_page) k = ts)
   \<and> (k \<notin> page_number ` set (sparse_tables per_page) \<longrightarrow>
        select_page_tables (sparse_tables per_page) k = [])
   \<and> select_page_images all_image_data k = filter (\<lambda>img. img_page img = k) all_image_data
   \<and> (k < length per_page \<and> t \<in> set (per_page ! k)
       \<and> (\<forall>j < length per_page. j \<noteq> k \<longrightarrow> t \<notin> set (per_page ! j)) \<longrightarrow>
        t \<in> set (select_page_tables (sparse_tables per_page) k)
        \<and> (\<forall>j. j \<noteq> k \<longrightarrow> t \<notin> set (select_page_tables (sparse_tables per_page) j)))"
proof -
  have step: "page_loop chat all_text_data all_image_data (sparse_tables per_page) total_pages
       (page_num # rest) zip_file =
     (case index all_text_data page_num of
        Inl e \<Rightarrow> (Inl e, [])
      | Inr entry \<Rightarrow>
          (case generate_markdown_from_data chat (blocks entry)
                  (filter (\<lambda>img. img_page img = page_num) all_image_data)
                  (if page_num < length per_page then per_page ! page_num else []) of
             (Inl e, calls1) \<Rightarrow> (Inl e, calls1)
           | (Inr markdown_content, calls1) \<Rightarrow>
               (case generate_html_from_markdown chat markdown_content (int page_num + 1)
                       (int total_pages) of
                  (Inl e, calls2) \<Rightarrow> (Inl e, calls1 @ calls2)
                | (Inr final_html, calls2) \<Rightarrow>
                    (case page_loop chat all_text_data all_image_data (sparse_tables per_page)
                            total_pages rest
                            (zip_file @ [(page_entry_name (int page_num + 1), final_html)]) of
                       (r, calls3) \<Rightarrow> (r, calls1 @ calls2 @ calls3)))))"
    by (cases "index all_text_data page_num")
      (simp_all add: Let_def select_sparse select_page_images_def)
  have extractor: "extract_tables_with_pdfplumber w fs file_path =
          (Inr (sparse_tables per_page), [PdfplumberOpen file_path])"
    if "fs file_path = Some data" "pdfplumber_parse w data = Inr per_page"
    using that by (simp add: extract_tables_with_pdfplumber_def)
  have a: "select_page_tables (sparse_tables per_page) k = ts"
    if "\<lparr>page_number = k, tables = ts\<rparr> \<in> set (sparse_tables per_page)"
    using that by (simp add: sparse_tables_member select_sparse)
  have b: "select_page_tables (sparse_tables per_page) k = []"
    if "k \<notin> page_number ` set (sparse_tables per_page)"
  proof (cases "k < length per_page \<and> per_page ! k \<noteq> []")
    case True
    then have "\<lparr>page_number = k, tables = per_page ! k\<rparr> \<in> set (sparse_tables per_page)"
      by (simp add: sparse_tables_member)
    then have "k \<in> page_number ` set (sparse_tables per_page)"
      by force
    with that show ?thesis by simp
  next
    case False
    then show ?thesis by (auto simp: select_sparse)
  qed
  have c: "t \<in> set (select_page_tables (sparse_tables per_page) k)
        \<and> (\<forall>j. j \<noteq> k \<longrightarrow> t \<notin> set (select_page_tables (sparse_tables per_page) j))"
    if "k < length per_page" "t \<in> set (per_page ! k)"
      "\<forall>j < length per_page. j \<noteq> k \<longrightarrow> t \<notin> set (per_page ! j)"
    using that by (auto simp: select_sparse)
  show ?thesis
    using step extractor a b c by (simp add: select_page_images_def)
qed

theorem page_join_witness:
  "snd (page_loop (\<lambda>request. Inr ''x'')
          [\<lparr>text_page_number = 0, blocks = []\<rparr>, \<lparr>text_page_number = 1, blocks = []\<rparr>] []
          (sparse_tables [[], [[[Some ''a'']]], []]) 3 [1] []) =
     [markdown_request (format_data_for_llm [] [] [[[Some ''a'']]]), html_request ''x'' 2 3]
   \<and> extract_tables_with_pdfplumber example_world [''/tmp/upload.pdf'' \<mapsto> ''x''] ''/tmp/upload.pdf'' =
       (Inr (sparse_tables [[]]), [PdfplumberOpen ''/tmp/upload.pdf''])
   \<and> \<lparr>page_number = 1, tables = [[[Some ''a'']]]\<rparr> \<in> set (sparse_tables [[], [[[Some ''a'']]], []])
   \<and> select_page_tables (sparse_tables [[], [[[Some ''a'']]], []]) 1 = [[[Some ''a'']]]
   \<and> 0 \<notin> page_number ` set (sparse_tables [[], [[[Some ''a'']]], []])
   \<and> select_page_tables (sparse_tables [[], [[[Some ''a'']]], []]) 0 = []
   \<and> [[Some ''a'']] \<notin> set (select_page_tables (sparse_tables [[], [[[Some ''a'']]], []]) 2)"
proof -
  let ?pp = "[[], [[[Some ''a'']]], []] :: table list list"
  let ?texts = "[\<lparr>text_page_number = 0, blocks = []\<rparr>, \<lparr>text_page_number = 1, blocks = []\<rparr>]"
  have sp: "sparse_tables ?pp = [\<lparr>page_number = 1, tables = [[[Some ''a'']]]\<rparr>]"
    by (simp add: sparse_tables_def enumerate_eq_zip upt_rec)
  have h: "(1::nat) < length ?pp \<and> [[Some ''a'']] \<in> set (?pp ! 1)
       \<and> (\<forall>j < length ?pp. j \<noteq> 1 \<longrightarrow> [[Some ''a'']] \<notin> set (?pp ! j))"
    by (auto simp: less_Suc_eq numeral_3_eq_3)
  have ex: "[''/tmp/upload.pdf'' \<mapsto> ''x''] ''/tmp/upload.pdf'' = Some ''x''
      \<and> pdfplumber_parse example_world ''x'' = Inr [[]]"
    by (simp add: example_world_def)
  have one: "str_int 1 = ''1''"
    by (simp add: str_int_def str_nat.simps digit_char_def)
  have md: "generate_markdown_from_data (\<lambda>request. Inr ''x'') [] [] [[[Some ''a'']]] =
      (Inr ''x'', [markdown_request (format_data_for_llm [] [] [[[Some ''a'']]])])"
    by (simp add: generate_markdown_from_data_def MAX_CHARS_def format_data_for_llm_def
        formatted_strings_def format_table_def table_str_def enumerate_eq_zip one)
  have loop: "snd (page_loop (\<lambda>request. Inr ''x'') ?texts [] (sparse_tables ?pp) 3 [1] []) =
      [markdown_request (format_data_for_llm [] [] [[[Some ''a'']]]), html_request ''x'' 2 3]"
    using page_join [where chat = "\<lambda>request. Inr ''x''" and all_text_data = ?texts
        and all_image_data = "[]" and per_page = ?pp and total_pages = 3 and page_num = 1
        and rest = "[]" and zip_file = "[]" and k = 1 and ts = "[[[Some ''a'']]]"
        and t = "[[Some ''a'']]" and fs = "[''/tmp/upload.pdf'' \<mapsto> ''x'']"
        and file_path = "''/tmp/upload.pdf''" and data = "''x''" and w = example_world]
    by (simp add: index_def md generate_html_from_markdown_def select_sparse
        select_page_images_def)
  show ?thesis
    using page_join [where per_page = ?pp and k = 1 and ts = "[[[Some ''a'']]]"
        and t = "[[Some ''a'']]" and all_image_data = "[]"]
      page_join [where per_page = ?pp and k = 0 and ts = "[]"
        and t = "[[Some ''a'']]" and all_image_data = "[]"]
      page_join [where per_page = "[[]]" and fs = "[''/tmp/upload.pdf'' \<mapsto> ''x'']"
        and file_path = "''/tmp/upload.pdf''" and data = "''x''" and w = example_world]
      h ex loop
    by (simp add: sp)
qed

section \<open>Image extraction\<close>

text \<open>
  C5. For a one-page document without images whose \<open>pdfimages\<close> run hits the timeout,
  \<open>extract_images\<close> raises \<open>TimeoutExpired\<close> instead of returning the empty list.
\<close>

theorem fallback_timeout_propagates:
  "extract_images slow_world [''/tmp/upload.pdf'' \<mapsto> ''x''] scanned_document =
     (Inl (OtherException ''TimeoutExpired''), [RunPdfimages ''/tmp/upload.pdf''])"
  by (simp add: extract_images_def page_count_def primary_images_def scanned_document_def
      example_document_def extract_images_with_fallback_def run_pdfimages_def slow_world_def
      example_world_def enumerate_eq_zip)

text \<open>
  The rest of the fallback's behaviour: the command runs exactly when the primary
  extraction found nothing and the document has a page, every image it yields is on
  page 0, and a missing executable or a non-zero exit status gives the empty list.
\<close>

lemma image_fallback_behaviour:
  assumes "page_count doc = Inr n"
  shows "snd (extract_images w fs doc) =
           (if primary_images doc = [] \<and> 0 < n then [RunPdfimages (name doc)] else [])"
    and "primary_images doc = [] \<Longrightarrow> 0 < n \<Longrightarrow> fst (extract_images w fs doc) = Inr images
           \<Longrightarrow> img \<in> set images \<Longrightarrow> img_page img = 0"
    and "primary_images doc = [] \<Longrightarrow> 0 < n
           \<Longrightarrow> run_pdfimages w fs (name doc) \<in> {NonZeroExit, ExecutableMissing}
           \<Longrightarrow> fst (extract_images w fs doc) = Inr []"
  using assms
  by (auto simp: extract_images_def extract_images_with_fallback_def fallback_image_def
      split: proc_outcome.splits)

section \<open>Opening a document\<close>

text \<open>
  C7. Opening an encrypted document without a password, or with a wrong one, raises
  nothing: the call returns the (closed) handle.
\<close>

theorem unauthenticated_open_does_not_raise:
  "open_pdf_from_path locked_world [''/tmp/upload.pdf'' \<mapsto> ''x''] ''/tmp/upload.pdf'' None =
     (Inr (locked_document\<lparr>name := ''/tmp/upload.pdf'', is_closed := True\<rparr>),
      [FitzOpen ''/tmp/upload.pdf'', CloseDocument])
   \<and> open_pdf_from_path locked_world [''/tmp/upload.pdf'' \<mapsto> ''x''] ''/tmp/upload.pdf'' (Some ''guess'') =
     (Inr (locked_document\<lparr>name := ''/tmp/upload.pdf'', is_closed := True\<rparr>),
      [FitzOpen ''/tmp/upload.pdf'', CloseDocument])"
  by (simp add: open_pdf_from_path_def fitz_open_def authenticate_def close_def
      locked_world_def locked_document_def example_document_def example_world_def)

text \<open>
  C10. When the opened document is encrypted and the password (or the empty password, if
  none is given) does not authenticate, \<open>open_pdf_from_path\<close> closes the handle and
  returns that closed handle: reading its page count, extracting its text and extracting
  its images all fail on the closed document.
\<close>

theorem failed_authentication_closes_handle:
  assumes "fitz_open w fs file_path = Inr doc"
    and "is_encrypted doc"
    and "password_or_empty password \<notin> set (passwords doc)"
  shows "open_pdf_from_path w fs file_path password =
           (Inr (doc\<lparr>is_closed := True\<rparr>), [FitzOpen file_path, CloseDocument])
         \<and> page_count (doc\<lparr>is_closed := True\<rparr>) = Inl (OtherException ''ValueError'')
         \<and> extract_text_with_positions (doc\<lparr>is_closed := True\<rparr>) = Inl (OtherException ''ValueError'')
         \<and> fst (extract_images w fs (doc\<lparr>is_closed := True\<rparr>)) = Inl (OtherException ''ValueError'')"
  using assms
  by (simp add: open_pdf_from_path_def authenticate_def close_def page_count_def
      extract_text_with_positions_def extract_images_def)

theorem failed_authentication_closes_handle_witness:
  "fitz_open locked_world [''/tmp/upload.pdf'' \<mapsto> ''x''] ''/tmp/upload.pdf''
     = Inr (locked_document\<lparr>name := ''/tmp/upload.pdf''\<rparr>)
   \<and> is_encrypted (locked_document\<lparr>name := ''/tmp/upload.pdf''\<rparr>)
   \<and> password_or_empty None \<notin> set (passwords (locked_document\<lparr>name := ''/tmp/upload.pdf''\<rparr>))
   \<and> open_pdf_from_path locked_world [''/tmp/upload.pdf'' \<mapsto> ''x''] ''/tmp/upload.pdf'' None =
       (Inr (locked_document\<lparr>name := ''/tmp/upload.pdf'', is_closed := True\<rparr>),
        [FitzOpen ''/tmp/upload.pdf'', CloseDocument])
   \<and> page_count (locked_document\<lparr>name := ''/tmp/upload.pdf'', is_closed := True\<rparr>)
       = Inl (OtherException ''ValueError'')"
proof -
  let ?d = "locked_document\<lparr>name := ''/tmp/upload.pdf''\<rparr>"
  have h1: "fitz_open locked_world [''/tmp/upload.pdf'' \<mapsto> ''x''] ''/tmp/upload.pdf'' = Inr ?d"
    by (simp add: fitz_open_def locked_world_def locked_document_def example_document_def
        example_world_def)
  have h2: "is_encrypted ?d"
    by (simp add: locked_document_def)
  have h3: "password_or_empty None \<notin> set (passwords ?d)"
    by (simp add: locked_document_def)
  show ?thesis
    using failed_authentication_closes_handle [OF h1 h2 h3] h1 h2 h3 by simp
qed

section \<open>The endpoint\<close>

text \<open>
  C6. An upload that the PDF library cannot parse is answered with status 500 and the
  generic detail, not with status 400 and a structured error.
\<close>

theorem unreadable_upload_gets_500:
  "respond unreadable_world \<lparr>content_type = ''application/pdf'', file_bytes = ''hello''\<rparr> =
     \<lparr>status_code = 500, content = DetailContent ''An internal server error occurred.''\<rparr>"
  by (simp add: respond_def convert_pdf_to_html_def MAX_FILE_SIZE_def try_block_def Let_def
      finally_block_def open_pdf_from_path_def fitz_open_def unreadable_world_def
      example_world_def)

text \<open>
  The same holds for every upload of the right type and size that the PDF library
  rejects with an exception of its own.
\<close>

lemma unparseable_upload_response:
  assumes "content_type file = ''application/pdf''"
    and "length (file_bytes file) \<le> MAX_FILE_SIZE"
    and "fitz_parse w (file_bytes file) = Inl e"
    and "\<not> is_PDFProcessingError e"
  shows "respond w file =
           \<lparr>status_code = 500, content = DetailContent ''An internal server error occurred.''\<rparr>"
  using assms
  by (simp add: respond_def convert_pdf_to_html_def try_block_def Let_def finally_block_def
      open_pdf_from_path_def fitz_open_def)

text \<open>
  C8. An upload whose content type is not \<open>application/pdf\<close> is rejected with status 400
  before anything has happened (the body has not been read); an upload of the right type
  with more than 50 MiB is rejected with status 413 when the body has been read and
  nothing else has happened (no file written, no parser started).
\<close>

theorem upload_validation:
  "(content_type file \<noteq> ''application/pdf'' \<longrightarrow>
      convert_pdf_to_html w file = (Inl (HTTPException 400 ''Invalid file type.''), [])
      \<and> status_code (respond w file) = 400)
   \<and> (content_type file = ''application/pdf'' \<and> 50 * 1024 * 1024 < length (file_bytes file) \<longrightarrow>
      convert_pdf_to_html w file = (Inl (HTTPException 413 ''File size exceeds limit.''), [ReadUpload])
      \<and> status_code (respond w file) = 413)"
  by (simp add: convert_pdf_to_html_def respond_def MAX_FILE_SIZE_def)

theorem upload_validation_witness:
  "''text/plain'' \<noteq> ''application/pdf''
   \<and> convert_pdf_to_html example_world \<lparr>content_type = ''text/plain'', file_bytes = ''abc''\<rparr> =
     (Inl (HTTPException 400 ''Invalid file type.''), [])
   \<and> 50 * 1024 * 1024 < length (replicate 52428801 CHR ''a'')
   \<and> convert_pdf_to_html example_world
        \<lparr>content_type = ''application/pdf'', file_bytes = replicate 52428801 CHR ''a''\<rparr> =
     (Inl (HTTPException 413 ''File size exceeds limit.''), [ReadUpload])"
  using upload_validation [of "\<lparr>content_type = ''text/plain'', file_bytes = ''abc''\<rparr>" example_world]
    upload_validation [of "\<lparr>content_type = ''application/pdf'', file_bytes = replicate 52428801 CHR ''a''\<rparr>" example_world]
  by simp

section \<open>The archive\<close>

lemma page_loop_names:
  "page_loop c texts imgs tabs total_pages ps z = (Inr z', calls) \<Longrightarrow>
     map fst z' = map fst z @ map (\<lambda>n. page_entry_name (int n + 1)) ps"
proof (induction ps arbitrary: z calls)
  case Nil
  then show ?case by simp
next
  case (Cons p ps)
  from Cons.prems obtain entry md html c3 where
    "page_loop c texts imgs tabs total_pages ps (z @ [(page_entry_name (int p + 1), html)]) = (Inr z', c3)"
    by (auto simp: Let_def split: sum.splits prod.splits)
  from Cons.IH [OF this] show ?case by simp
qed

lemma try_block_Inr:
  "try_block w fs p = (Inr r, doc, ev) \<Longrightarrow>
     \<exists>d z e0 e1. open_pdf_from_path w fs p None = (Inr d, e0)
        \<and> build_archive w fs p d = (Inr z, e1)
        \<and> r = \<lparr>status_code = 200, content = ZipContent z\<rparr>"
  by (auto simp: try_block_def split: sum.splits prod.splits if_splits)

lemma build_archive_Inr:
  "build_archive w fs p d = (Inr z, ev) \<Longrightarrow>
     \<exists>images zf calls texts tabs.
        fst (extract_images w fs d) = Inr images
        \<and> page_loop (llm w) texts images tabs (length (pages d)) [0 ..< length (pages d)] []
            = (Inr zf, calls)
        \<and> z = zf @ [(''style.css'', stylesheet)] @ map image_entry images"
  by (auto simp: build_archive_def page_count_def split: sum.splits prod.splits if_splits)

lemma page_entry_name_inj: "page_entry_name a = page_entry_name b \<Longrightarrow> a = b"
  by (simp add: page_entry_name_def str_int_inj)

lemma distinct_entry_names:
  "distinct (map (\<lambda>n. page_entry_name (int n + 1)) [0 ..< total_pages] @ [''style.css'']
              @ map (\<lambda>img. ''images/'' @ img_name img) images)
     = distinct (map img_name images)"
proof -
  have pages: "distinct (map (\<lambda>n. page_entry_name (int n + 1)) [0 ..< total_pages])"
    by (auto simp: distinct_map inj_on_def dest: page_entry_name_inj)
  have images: "distinct (map (\<lambda>img. ''images/'' @ img_name img) images)
                  = distinct (map img_name images)"
  proof -
    have "map (\<lambda>img. ''images/'' @ img_name img) images = map ((@) ''images/'') (map img_name images)"
      by simp
    then show ?thesis
      by (simp only: distinct_map) (auto simp: inj_on_def)
  qed
  show ?thesis
    using pages images by (auto simp: page_entry_name_def)
qed

text \<open>
  When the endpoint answers with an archive, the entries are, in this order,
  \<open>page-1.html\<close> to \<open>page-N.html\<close> for the \<open>N\<close> pages of the document, one \<open>style.css\<close>,
  and one \<open>images/<name>\<close> for each extracted image; the entry names are free of
  duplicates exactly when the names of the extracted images are.
\<close>

lemma archive_layout:
  assumes "archive_names w file = Some names"
  shows "names = map (\<lambda>n. ''page-'' @ str_int (int n + 1) @ ''.html'') [0 ..< document_page_count w file]
                 @ [''style.css'']
                 @ map (\<lambda>img. ''images/'' @ img_name img) (extracted_images w file)
         \<and> distinct names = distinct (map img_name (extracted_images w file))"
proof -
  let ?p = "tmp_name w"
  let ?fs = "[?p \<mapsto> file_bytes file]"
  from assms obtain r z where conv: "fst (convert_pdf_to_html w file) = Inr r"
    and r: "content r = ZipContent z" and names: "names = map fst z"
    by (auto simp: archive_names_def split: sum.splits content.splits)
  from conv obtain doc ev where "try_block w ?fs ?p = (Inr r, doc, ev)"
    by (auto simp: convert_pdf_to_html_def Let_def split: if_splits prod.splits option.splits)
  from try_block_Inr [OF this] obtain d z' e0 e1 where
    opened: "open_pdf_from_path w ?fs ?p None = (Inr d, e0)"
    and built: "build_archive w ?fs ?p d = (Inr z', e1)"
    and r': "r = \<lparr>status_code = 200, content = ZipContent z'\<rparr>"
    by blast
  from r r' have zz: "z' = z" by simp
  from build_archive_Inr [OF built] obtain images zf calls texts tabs where
    imgs: "fst (extract_images w ?fs d) = Inr images"
    and loop: "page_loop (llm w) texts images tabs (length (pages d)) [0 ..< length (pages d)] []
                 = (Inr zf, calls)"
    and z': "z' = zf @ [(''style.css'', stylesheet)] @ map image_entry images"
    by blast
  from opened have od: "opened_document w file = Some d"
    by (simp add: opened_document_def)
  then have pc: "document_page_count w file = length (pages d)"
    by (simp add: document_page_count_def)
  from od imgs have ei: "extracted_images w file = images"
    by (simp add: extracted_images_def)
  from page_loop_names [OF loop]
  have eq: "names = map (\<lambda>n. page_entry_name (int n + 1)) [0 ..< length (pages d)]
                   @ [''style.css''] @ map (\<lambda>img. ''images/'' @ img_name img) images"
    by (simp add: names zz [symmetric] z' image_entry_def comp_def)
  from eq have "distinct names = distinct (map img_name images)"
    by (simp only: distinct_entry_names)
  with eq show ?thesis
    by (simp add: pc ei page_entry_name_def)
qed

lemma example_names:
  "archive_names example_world example_upload
     = Some [''page-1.html'', ''style.css'', ''images/image_0_5.png'']"
  by (simp add: archive_names_def convert_pdf_to_html_def MAX_FILE_SIZE_def Let_def
      try_block_def finally_block_def truth_value_def open_pdf_from_path_def fitz_open_def
      build_archive_def page_count_def extract_text_with_positions_def page_spans_def
      span_dict_def extract_images_def primary_images_def page_image_def
      extract_tables_with_pdfplumber_def sparse_tables_def index_def select_page_images_def
      select_page_tables_def generate_markdown_from_data_def generate_html_from_markdown_def
      format_data_for_llm_def formatted_strings_def format_text_block_def format_image_def
      str_int_list_def py_round_def MAX_CHARS_def markdown_request_def html_request_def
      page_entry_name_def image_entry_def enumerate_eq_zip upt_rec str_small
      example_world_def example_upload_def example_document_def example_page_def)

lemma archive_layout_example:
  "archive_names example_world example_upload
     = Some [''page-1.html'', ''style.css'', ''images/image_0_5.png'']
   \<and> [''page-1.html'', ''style.css'', ''images/image_0_5.png'']
       = map (\<lambda>n. ''page-'' @ str_int (int n + 1) @ ''.html'')
           [0 ..< document_page_count example_world example_upload]
         @ [''style.css'']
         @ map (\<lambda>img. ''images/'' @ img_name img) (extracted_images example_world example_upload)
   \<and> distinct (map img_name (extracted_images example_world example_upload))"
  using archive_layout [OF example_names] example_names by simp

text \<open>
  C2. The archive is meant to have one \<open>images/<name>\<close> entry per distinct image name
  and no duplicate entry names. For a page that lists the same image twice (the same
  cross-reference number under two resource names), both images get the same name and
  the archive has two entries called \<open>images/image_0_5.png\<close>.
\<close>

theorem duplicate_entry_names:
  "archive_names repeated_xref_world example_upload
     = Some [''page-1.html'', ''style.css'', ''images/image_0_5.png'', ''images/image_0_5.png'']
   \<and> \<not> distinct [''page-1.html'', ''style.css'', ''images/image_0_5.png'', ''images/image_0_5.png'']"
  by (simp add: archive_names_def convert_pdf_to_html_def MAX_FILE_SIZE_def Let_def
      try_block_def finally_block_def truth_value_def open_pdf_from_path_def fitz_open_def
      build_archive_def page_count_def extract_text_with_positions_def page_spans_def
      span_dict_def extract_images_def primary_images_def page_image_def
      extract_tables_with_pdfplumber_def sparse_tables_def index_def select_page_images_def
      select_page_tables_def generate_markdown_from_data_def generate_html_from_markdown_def
      format_data_for_llm_def formatted_strings_def format_text_block_def format_image_def
      str_int_list_def py_round_def MAX_CHARS_def markdown_request_def html_request_def
      page_entry_name_def image_entry_def enumerate_eq_zip upt_rec str_small
      repeated_xref_world_def
      example_world_def example_upload_def example_document_def example_page_def)

end
